theory Spec2Isabelle
  imports
    Complex_Main
    "HOL-Library.Multiset"
    "HOL-Library.Sublist"
    "HOL-Library.Char_ord"
    "HOL-Library.List_Lexorder"
begin

section \<open>Sales dashboard: data generator and data processor\<close>

text \<open>
  A shallow embedding of \<^verbatim>\<open>src/src/data_generator.py\<close> and
  \<^verbatim>\<open>src/src/data_processor.py\<close>.

  Conventions of the model.
  \<^item> A DataFrame is the list of its rows, in index order; a row is a \<open>venda\<close> record.
    Every column the code tests for (\<^verbatim>\<open>'Data' in self.df.columns\<close> and the like) is
    a field of the record, so those tests are true.
  \<^item> A timestamp is an \<open>int\<close>: nanoseconds since 1970-01-01 00:00:00, the resolution
    of a pandas Timestamp.
  \<^item> A finite float64 value is the rational number it stands for (\<open>rat\<close>); a float
    result that may not be finite is an \<open>fnum\<close>. The arithmetic of floats is the exact
    arithmetic followed by rounding to the nearest float64. Zero has no sign.
  \<^item> Column names and string constants are written without their accents
    (\<^verbatim>\<open>Regiao\<close>, \<^verbatim>\<open>Concluida\<close>), and \<^verbatim>\<open>Desconto_%\<close> is \<open>Desconto\<close>.
\<close>

subsection \<open>Time and calendar\<close>

type_synonym timestamp = int

definition ms :: int where
  "ms = 1000000"

definition segundo :: int where
  "segundo = 1000000000"

definition dia :: int where
  "dia = 86400000000000"

text \<open>The day number (days since 1970-01-01) of a timestamp, and midnight of a day.\<close>

definition dia_de :: "timestamp \<Rightarrow> int" where
  "dia_de t = t div dia"

definition meia_noite :: "int \<Rightarrow> timestamp" where
  "meia_noite d = d * dia"

text \<open>
  The proleptic Gregorian calendar that pandas uses for \<^verbatim>\<open>.dt\<close>: year, month (1..12)
  and day of month (1..31) of a day number.
\<close>

definition civil :: "int \<Rightarrow> int \<times> int \<times> int" where
  "civil z0 =
     (let z = z0 + 719468;
          era = z div 146097;
          doe = z - era * 146097;
          yoe = (doe - doe div 1460 + doe div 36524 - doe div 146096) div 365;
          doy = doe - (365 * yoe + yoe div 4 - yoe div 100);
          mp = (5 * doy + 2) div 153;
          d = doy - (153 * mp + 2) div 5 + 1;
          m = (if mp < 10 then mp + 3 else mp - 9);
          y = yoe + era * 400 + (if m \<le> 2 then 1 else 0)
      in (y, m, d))"

definition ano_de :: "timestamp \<Rightarrow> int" where
  "ano_de t = fst (civil (dia_de t))"

definition mes_de :: "timestamp \<Rightarrow> int" where
  "mes_de t = fst (snd (civil (dia_de t)))"

text \<open>
  \<^verbatim>\<open>.dt.to_period('M')\<close>: the calendar month of a timestamp. Periods are ordered
  chronologically, so a month is represented by the number \<open>12 * year + (month - 1)\<close>.
\<close>

definition to_period_M :: "timestamp \<Rightarrow> int" where
  "to_period_M t = 12 * ano_de t + (mes_de t - 1)"

definition quarter :: "timestamp \<Rightarrow> int" where
  "quarter t = (mes_de t - 1) div 3 + 1"

definition day_name :: "timestamp \<Rightarrow> string" where
  "day_name t =
     [''Monday'', ''Tuesday'', ''Wednesday'', ''Thursday'', ''Friday'', ''Saturday'', ''Sunday'']
       ! nat ((dia_de t + 3) mod 7)"

definition month_name :: "timestamp \<Rightarrow> string" where
  "month_name t =
     [''January'', ''February'', ''March'', ''April'', ''May'', ''June'', ''July'',
      ''August'', ''September'', ''October'', ''November'', ''December'']
       ! nat (mes_de t - 1)"

subsection \<open>Rows\<close>

record venda =
  ID :: string
  Data :: timestamp
  Categoria :: string
  Produto :: string
  Regiao :: string
  Cidade :: string
  Valor_Unitario :: rat
  Quantidade :: int
  Valor_Total :: rat
  Desconto :: int
  Valor_Final :: rat
  Status :: string
  Metodo_Pagamento :: string
  Vendedor :: string
  Cliente_ID :: string
  Mes :: int
  Ano :: int
  Trimestre :: int
  Dia_Semana :: string
  Mes_Nome :: string

type_synonym dataframe = "venda list"

subsection \<open>Rounding and float64 arithmetic\<close>

text \<open>Rounding to the nearest integer, a tie going to the even neighbour.\<close>

definition round_half_even :: "rat \<Rightarrow> int" where
  "round_half_even y =
     (let f = \<lfloor>y\<rfloor>; d = y - of_int f
      in if d < 1 / 2 then f
         else if 1 / 2 < d then f + 1
         else if even f then f else f + 1)"

text \<open>The exact decimal rounding to two places.\<close>

definition round2 :: "rat \<Rightarrow> rat" where
  "round2 x = of_int (round_half_even (x * 100)) / 100"

text \<open>
  The float64 format (IEEE 754 binary64): 53 significant bits, exponents from -1022 to
  1023, gradual underflow. \<open>nbits n\<close> is the number of binary digits of \<open>n\<close>;
  \<open>expoente x\<close> is the exponent \<open>e\<close> with
  \<open>2 ^ e \<le> \<bar>x\<bar> < 2 ^ (e + 1)\<close>, for \<open>x \<noteq> 0\<close>; \<open>f64r x\<close> is the multiple of the
  spacing of floats at \<open>x\<close> that is nearest to \<open>x\<close>, a tie going to the even
  significand.
\<close>

function nbits :: "int \<Rightarrow> int" where
  "nbits n = (if n \<le> 0 then 0 else 1 + nbits (n div 2))"
  by pat_completeness auto
termination
  by (relation "measure nat") auto

definition pow2 :: "int \<Rightarrow> rat" where
  "pow2 e = (if 0 \<le> e then 2 ^ nat e else 1 / 2 ^ nat (- e))"

definition expoente :: "rat \<Rightarrow> int" where
  "expoente x =
     (let (p, q) = quotient_of \<bar>x\<bar>;
          k = nbits p - nbits q
      in if pow2 k \<le> \<bar>x\<bar> then k else k - 1)"

definition f64r :: "rat \<Rightarrow> rat" where
  "f64r x =
     (if x = 0 then 0
      else
        (let e = max (expoente x) (- 1022);
             q = pow2 (e - 52)
         in of_int (round_half_even (x / q)) * q))"

text \<open>
  A float result: a finite number, an infinity or NaN. \<open>f64 x\<close> is the float that a
  correctly rounded operation returns when its exact result is \<open>x\<close>: the nearest
  float64, or an infinity when that is out of range (of exponent 1024 or more).
\<close>

datatype fnum = Fin rat | PInf | NInf | NaN

definition f64 :: "rat \<Rightarrow> fnum" where
  "f64 x =
     (let r = f64r x
      in if 1024 \<le> expoente r then (if 0 < x then PInf else NInf) else Fin r)"

text \<open>
  Addition, subtraction, division, multiplication by a finite constant and rounding to
  an integer (\<^verbatim>\<open>rint\<close>), with the IEEE results for infinities, NaN and a zero
  divisor. Adding zero is exact. numpy's float64 does not raise on a division by zero:
  a non-zero numerator gives an infinity of its sign, a zero numerator gives NaN.
\<close>

fun f_neg :: "fnum \<Rightarrow> fnum" where
  "f_neg (Fin a) = Fin (- a)"
| "f_neg PInf = NInf"
| "f_neg NInf = PInf"
| "f_neg NaN = NaN"

fun f_add :: "fnum \<Rightarrow> fnum \<Rightarrow> fnum" where
  "f_add NaN y = NaN"
| "f_add x NaN = NaN"
| "f_add PInf NInf = NaN"
| "f_add NInf PInf = NaN"
| "f_add PInf y = PInf"
| "f_add x PInf = PInf"
| "f_add NInf y = NInf"
| "f_add x NInf = NInf"
| "f_add (Fin a) (Fin b) = (if a = 0 then Fin b else if b = 0 then Fin a else f64 (a + b))"

definition f_sub :: "fnum \<Rightarrow> fnum \<Rightarrow> fnum" where
  "f_sub x y = f_add x (f_neg y)"

fun f_div :: "fnum \<Rightarrow> fnum \<Rightarrow> fnum" where
  "f_div NaN y = NaN"
| "f_div x NaN = NaN"
| "f_div PInf PInf = NaN"
| "f_div PInf NInf = NaN"
| "f_div NInf PInf = NaN"
| "f_div NInf NInf = NaN"
| "f_div PInf (Fin b) = (if b < 0 then NInf else PInf)"
| "f_div NInf (Fin b) = (if b < 0 then PInf else NInf)"
| "f_div (Fin a) PInf = Fin 0"
| "f_div (Fin a) NInf = Fin 0"
| "f_div (Fin a) (Fin b) =
     (if b \<noteq> 0 then f64 (a / b)
      else if 0 < a then PInf
      else if a < 0 then NInf
      else NaN)"

fun fmul :: "fnum \<Rightarrow> rat \<Rightarrow> fnum" where
  "fmul (Fin x) c = f64 (x * c)"
| "fmul PInf c = (if 0 < c then PInf else if c < 0 then NInf else NaN)"
| "fmul NInf c = (if 0 < c then NInf else if c < 0 then PInf else NaN)"
| "fmul NaN c = NaN"

fun f_rint :: "fnum \<Rightarrow> fnum" where
  "f_rint (Fin x) = Fin (of_int (round_half_even x))"
| "f_rint v = v"

text \<open>Comparisons with a finite constant. Every comparison with NaN is false.\<close>

fun fgt :: "fnum \<Rightarrow> rat \<Rightarrow> bool" where
  "fgt (Fin x) c = (c < x)"
| "fgt PInf c = True"
| "fgt NInf c = False"
| "fgt NaN c = False"

fun fle :: "fnum \<Rightarrow> rat \<Rightarrow> bool" where
  "fle (Fin x) c = (x \<le> c)"
| "fle PInf c = False"
| "fle NInf c = True"
| "fle NaN c = False"

text \<open>
  \<^verbatim>\<open>round(x, 2)\<close> on a numpy float64: numpy multiplies by 100, rounds to an integer
  and divides by 100, each step in float64. \<open>np_round2r\<close> is the same on a number
  whose hundredfold is in range.
\<close>

definition np_round2 :: "fnum \<Rightarrow> fnum" where
  "np_round2 v = f_div (f_rint (fmul v 100)) (Fin 100)"

definition np_round2r :: "rat \<Rightarrow> rat" where
  "np_round2r x = f64r (of_int (round_half_even (f64r (x * 100))) / 100)"

text \<open>
  \<^verbatim>\<open>round(x, 2)\<close> on a Python float: the float nearest to the exact decimal
  rounding of \<open>x\<close>.
\<close>

definition py_round2 :: "rat \<Rightarrow> rat" where
  "py_round2 x = f64r (round2 x)"

subsection \<open>The processor and its filters\<close>

text \<open>
  \<^verbatim>\<open>class DataProcessor\<close>: the current view \<open>df\<close> and the collection it was built
  from, \<open>df_original\<close>. \<^verbatim>\<open>__init__\<close> stores two copies of its argument; every
  method returns \<^verbatim>\<open>self\<close>, here the updated processor.
\<close>

record DataProcessor =
  df :: dataframe
  df_original :: dataframe

definition init :: "dataframe \<Rightarrow> DataProcessor" where
  "init d = \<lparr>df = d, df_original = d\<rparr>"

text \<open>
  \<^verbatim>\<open>limpar_dados\<close>: \<^verbatim>\<open>drop_duplicates\<close> keeps the first of equal rows; the
  fields of a \<open>venda\<close> are never null, so \<^verbatim>\<open>dropna\<close> removes nothing.
\<close>

definition drop_duplicates :: "dataframe \<Rightarrow> dataframe" where
  "drop_duplicates d = rev (remdups (rev d))"

definition limpar_dados :: "DataProcessor \<Rightarrow> DataProcessor" where
  "limpar_dados p = p\<lparr>df := drop_duplicates (df p)\<rparr>"

text \<open>
  \<^verbatim>\<open>filtrar_por_periodo\<close>. A bound is \<open>None\<close> when the argument is falsy
  (\<^verbatim>\<open>None\<close>, by default) and \<open>Some t\<close> when it is given, \<open>t\<close> being the value of
  \<^verbatim>\<open>pd.to_datetime\<close> on it: midnight of the day for a date, the timestamp itself
  for a datetime.
\<close>

definition filtrar_por_periodo ::
  "timestamp option \<Rightarrow> timestamp option \<Rightarrow> DataProcessor \<Rightarrow> DataProcessor" where
  "filtrar_por_periodo data_inicio data_fim p =
     (let p1 = (case data_inicio of
                  None \<Rightarrow> p
                | Some ini \<Rightarrow> p\<lparr>df := filter (\<lambda>r. ini \<le> Data r) (df p)\<rparr>);
          p2 = (case data_fim of
                  None \<Rightarrow> p1
                | Some fim \<Rightarrow>
                    (let fim' = fim + 1 * dia - 1 * ms
                     in p1\<lparr>df := filter (\<lambda>r. Data r \<le> fim') (df p1)\<rparr>))
      in p2)"

text \<open>
  The argument of the three membership filters: omitted (\<^verbatim>\<open>None\<close>), a list, or a
  single value. \<open>truthy\<close> is Python's truth value of it. A column of strings has no
  entry equal to \<^verbatim>\<open>None\<close>; the filters test \<open>truthy\<close> first and never get there.
\<close>

datatype selecao = Omitida | Lista "string list" | Valor string

fun truthy :: "selecao \<Rightarrow> bool" where
  "truthy Omitida = False"
| "truthy (Lista xs) = (xs \<noteq> [])"
| "truthy (Valor s) = (s \<noteq> [])"

fun filtrar_coluna :: "(venda \<Rightarrow> string) \<Rightarrow> selecao \<Rightarrow> dataframe \<Rightarrow> dataframe" where
  "filtrar_coluna col (Lista xs) d = filter (\<lambda>r. col r \<in> set xs) d"
| "filtrar_coluna col (Valor s) d = filter (\<lambda>r. col r = s) d"
| "filtrar_coluna col Omitida d = filter (\<lambda>r. False) d"

definition filtrar_por_status :: "selecao \<Rightarrow> DataProcessor \<Rightarrow> DataProcessor" where
  "filtrar_por_status status p =
     (if truthy status then p\<lparr>df := filtrar_coluna Status status (df p)\<rparr> else p)"

definition filtrar_por_categoria :: "selecao \<Rightarrow> DataProcessor \<Rightarrow> DataProcessor" where
  "filtrar_por_categoria categorias p =
     (if truthy categorias then p\<lparr>df := filtrar_coluna Categoria categorias (df p)\<rparr> else p)"

definition filtrar_por_regiao :: "selecao \<Rightarrow> DataProcessor \<Rightarrow> DataProcessor" where
  "filtrar_por_regiao regioes p =
     (if truthy regioes then p\<lparr>df := filtrar_coluna Regiao regioes (df p)\<rparr> else p)"

definition reset_filtros :: "DataProcessor \<Rightarrow> DataProcessor" where
  "reset_filtros p = p\<lparr>df := df_original p\<rparr>"

definition get_dataframe :: "DataProcessor \<Rightarrow> dataframe" where
  "get_dataframe p = df p"

text \<open>The state-changing methods as operations, and a run of them from left to right.\<close>

datatype operacao =
    Limpar
  | Periodo "timestamp option" "timestamp option"
  | PorStatus selecao
  | PorCategoria selecao
  | PorRegiao selecao
  | Reset

fun aplicar :: "DataProcessor \<Rightarrow> operacao \<Rightarrow> DataProcessor" where
  "aplicar p Limpar = limpar_dados p"
| "aplicar p (Periodo a b) = filtrar_por_periodo a b p"
| "aplicar p (PorStatus s) = filtrar_por_status s p"
| "aplicar p (PorCategoria s) = filtrar_por_categoria s p"
| "aplicar p (PorRegiao s) = filtrar_por_regiao s p"
| "aplicar p Reset = reset_filtros p"

definition executar :: "DataProcessor \<Rightarrow> operacao list \<Rightarrow> DataProcessor" where
  "executar p ops = foldl aplicar p ops"

subsection \<open>Metrics\<close>

definition concluidas :: "dataframe \<Rightarrow> dataframe" where
  "concluidas d = filter (\<lambda>r. Status r = ''Concluida'') d"

definition mean :: "rat list \<Rightarrow> rat" where
  "mean xs = sum_list xs / of_nat (length xs)"

definition median :: "rat list \<Rightarrow> rat" where
  "median xs =
     (let ys = sort xs; n = length ys
      in if odd n then ys ! (n div 2)
         else (ys ! (n div 2 - 1) + ys ! (n div 2)) / 2)"

record metricas =
  total_vendas :: nat
  receita_total :: rat
  ticket_medio :: rat
  ticket_mediano :: rat
  total_produtos :: int
  vendas_canceladas :: nat
  vendas_pendentes :: nat
  receita_maxima :: rat
  receita_minima :: rat
  desconto_medio :: rat

text \<open>
  \<^verbatim>\<open>calcular_metricas_vendas\<close>. The mean, median, maximum and minimum are taken of
  a non-empty column: the empty case has returned before. The sums, the means and the
  median of the second branch are written in exact arithmetic, without the rounding
  of float64 and without the wrap-around of a 64-bit integer sum; the branch of a view
  with no completed row computes nothing.
\<close>

definition calcular_metricas_vendas :: "DataProcessor \<Rightarrow> metricas" where
  "calcular_metricas_vendas p =
     (let df_vendas = concluidas (df p)
      in if length df_vendas = 0 then
           \<lparr>total_vendas = 0, receita_total = 0, ticket_medio = 0, ticket_mediano = 0,
            total_produtos = 0, vendas_canceladas = 0, vendas_pendentes = 0,
            receita_maxima = 0, receita_minima = 0, desconto_medio = 0\<rparr>
         else
           \<lparr>total_vendas = length df_vendas,
            receita_total = sum_list (map Valor_Final df_vendas),
            ticket_medio = mean (map Valor_Final df_vendas),
            ticket_mediano = median (map Valor_Final df_vendas),
            total_produtos = sum_list (map Quantidade df_vendas),
            vendas_canceladas = length (filter (\<lambda>r. Status r = ''Cancelada'') (df p)),
            vendas_pendentes = length (filter (\<lambda>r. Status r = ''Pendente'') (df p)),
            receita_maxima = Max (set (map Valor_Final df_vendas)),
            receita_minima = Min (set (map Valor_Final df_vendas)),
            desconto_medio = mean (map (\<lambda>r. of_int (Desconto r)) df_vendas)\<rparr>)"


subsection \<open>Trend\<close>

text \<open>
  \<^verbatim>\<open>groupby(col)\<close>: one group per distinct key, the keys in ascending order, each
  group holding its rows in their original order.
\<close>

definition groupby :: "(venda \<Rightarrow> 'k::linorder) \<Rightarrow> dataframe \<Rightarrow> ('k \<times> dataframe) list" where
  "groupby col d =
     map (\<lambda>k. (k, filter (\<lambda>r. col r = k) d)) (sort (remdups (map col d)))"

text \<open>
  The result of \<^verbatim>\<open>tendencias\<close>: the empty dict, the two-key dict of the case of
  fewer than two months, or the four-key dict.
\<close>

datatype tendencia_dict =
    Vazio
  | Insuficiente fnum string
  | Tendencia (crescimento_mensal: fnum) (tendencia: string)
      (ultimo_mes: fnum) (penultimo_mes: fnum)

text \<open>
  \<^verbatim>\<open>df_vendas.groupby('Mes')['Valor_Final'].sum().sort_index()\<close>: the total of each
  month that has a completed sale, in chronological order. The total of a group is the
  float64 sum that pandas computes; the order in which pandas accumulates it is not
  the source's to choose, so the sum is the parameter \<open>soma\<close>, from the values of a
  group to their float64 sum.
\<close>

definition df_mensal :: "(rat list \<Rightarrow> fnum) \<Rightarrow> dataframe \<Rightarrow> fnum list" where
  "df_mensal soma df_vendas =
     map (\<lambda>kg. soma (map Valor_Final (snd kg)))
       (groupby (\<lambda>r. to_period_M (Data r)) df_vendas)"

definition classificar :: "fnum \<Rightarrow> string" where
  "classificar crescimento =
     (if fgt crescimento 5 then ''Crescimento Forte''
      else if fgt crescimento 0 then ''Crescimento Moderado''
      else if fgt crescimento (- 5) then ''Estavel''
      else ''Declinio'')"

definition tendencias_mensal :: "fnum list \<Rightarrow> tendencia_dict" where
  "tendencias_mensal m =
     (if length m < 2 then Insuficiente (Fin 0) ''Insuficiente''
      else
        (let ultimo = last m;
             penultimo = last (butlast m);
             crescimento = fmul (f_div (f_sub ultimo penultimo) penultimo) 100
         in Tendencia (np_round2 crescimento) (classificar crescimento) ultimo penultimo))"

definition tendencias :: "(rat list \<Rightarrow> fnum) \<Rightarrow> DataProcessor \<Rightarrow> tendencia_dict" where
  "tendencias soma p =
     (let df_vendas = concluidas (df p)
      in if length df_vendas = 0 then Vazio
         else tendencias_mensal (df_mensal soma df_vendas))"

subsection \<open>The generator\<close>

datatype error = ValueError | IndexError | KeyError | OverflowError | AttributeError

text \<open>
  The two library generators are parameters of the model; the state of each is global
  in the source and explicit here. \<^verbatim>\<open>random\<close>: \<open>seed_random g seed\<close> is the state
  that \<^verbatim>\<open>random.seed(seed)\<close> leaves when called in state \<open>g\<close>, and \<open>sample g xs k\<close>
  the value of \<^verbatim>\<open>random.sample(xs, k)\<close> in state \<open>g\<close>, for \<open>k \<le> length xs\<close>.
  \<^verbatim>\<open>numpy.random\<close>: \<open>np_seed h seed\<close> is the state after
  \<^verbatim>\<open>np.random.seed(seed)\<close> in state \<open>h\<close>; each draw returns its value and the
  next state. \<open>choice h k\<close> is the index that \<^verbatim>\<open>np.random.choice\<close> picks among \<open>k\<close>
  options, \<open>choice_p h ps\<close> the index it picks under the weights \<open>ps\<close>; both are below
  the number of options. \<open>uniform\<close> returns a float64 within its bounds.
\<close>

record 'g py_random =
  seed_random :: "'g \<Rightarrow> int \<Rightarrow> 'g"
  sample :: "'g \<Rightarrow> timestamp list \<Rightarrow> nat \<Rightarrow> timestamp list"

record 'h np_random =
  np_seed :: "'h \<Rightarrow> int \<Rightarrow> 'h"
  choice :: "'h \<Rightarrow> nat \<Rightarrow> nat \<times> 'h"
  choice_p :: "'h \<Rightarrow> rat list \<Rightarrow> nat \<times> 'h"
  uniform :: "'h \<Rightarrow> rat \<Rightarrow> rat \<Rightarrow> rat \<times> 'h"
  randint :: "'h \<Rightarrow> int \<Rightarrow> int \<Rightarrow> int \<times> 'h"

text \<open>
  What \<^verbatim>\<open>random.sample\<close> promises when it is asked for as many elements as the
  population has: the population, in some order.
\<close>

definition sample_ok :: "'g py_random \<Rightarrow> bool" where
  "sample_ok rnd = (\<forall>g xs. mset (sample rnd g xs (length xs)) = mset xs)"


definition categorias :: "string list" where
  "categorias = [''Eletronicos'', ''Roupas'', ''Casa e Jardim'', ''Esportes'',
                 ''Livros'', ''Brinquedos'', ''Alimentos'', ''Beleza'']"

definition regioes :: "string list" where
  "regioes = [''Norte'', ''Nordeste'', ''Centro-Oeste'', ''Sudeste'', ''Sul'']"

definition cidades :: "(string \<times> string list) list" where
  "cidades =
     [(''Norte'', [''Manaus'', ''Belem'', ''Porto Velho'']),
      (''Nordeste'', [''Salvador'', ''Recife'', ''Fortaleza'', ''Natal'']),
      (''Centro-Oeste'', [''Brasilia'', ''Goiania'', ''Campo Grande'']),
      (''Sudeste'', [''Sao Paulo'', ''Rio de Janeiro'', ''Belo Horizonte'', ''Vitoria'']),
      (''Sul'', [''Curitiba'', ''Porto Alegre'', ''Florianopolis''])]"

definition precos_base :: "(string \<times> rat \<times> rat) list" where
  "precos_base =
     [(''Eletronicos'', (500, 5000)),
      (''Roupas'', (50, 500)),
      (''Casa e Jardim'', (30, 800)),
      (''Esportes'', (100, 1500)),
      (''Livros'', (20, 150)),
      (''Brinquedos'', (25, 400)),
      (''Alimentos'', (10, 200)),
      (''Beleza'', (15, 300))]"

text \<open>Decimal numerals, as \<^verbatim>\<open>str\<close> and the format \<^verbatim>\<open>05d\<close> write them.\<close>

fun str_nat :: "nat \<Rightarrow> string" where
  "str_nat n =
     (if n < 10 then [char_of (48 + n)]
      else str_nat (n div 10) @ [char_of (48 + n mod 10)])"

definition str_int :: "int \<Rightarrow> string" where
  "str_int i = (if i < 0 then ''-'' @ str_nat (nat (- i)) else str_nat (nat i))"

definition fmt_05d :: "nat \<Rightarrow> string" where
  "fmt_05d n = replicate (5 - length (str_nat n)) (CHR ''0'') @ str_nat n"


text \<open>
  One pass of the loop body: record \<open>i\<close> (counted from 0) with date \<open>d\<close>, drawn from
  the numpy state \<open>h\<close>; the draws are made in the order of the source. The unit price
  and the gross total are Python floats, rounded by the built-in \<^verbatim>\<open>round\<close>; the
  discount is a numpy integer, so the net total is a numpy float64 and is rounded by
  numpy. The prices are far from the range limits of float64, so every result is
  finite. The five calendar columns that the source adds to the finished DataFrame are
  functions of the row's date, and are filled in here.
\<close>

definition linha :: "'h np_random \<Rightarrow> 'h \<Rightarrow> nat \<Rightarrow> timestamp \<Rightarrow> venda \<times> 'h" where
  "linha np h i d =
     (let (c, h1) = choice np h (length categorias);
          categoria = categorias ! c;
          (r, h2) = choice np h1 (length regioes);
          regiao = regioes ! r;
          cs = the (map_of cidades regiao);
          (ci, h3) = choice np h2 (length cs);
          cidade = cs ! ci;
          (preco_min, preco_max) = the (map_of precos_base categoria);
          (u, h4) = uniform np h3 preco_min preco_max;
          valor = py_round2 u;
          (quantidade, h5) = randint np h4 1 10;
          total = py_round2 (f64r (valor * of_int quantidade));
          (di, h6) = choice_p np h5 [3 / 10, 2 / 10, 15 / 100, 15 / 100, 1 / 10, 5 / 100, 5 / 100];
          desconto = [0, 5, 10, 15, 20, 25, 30] ! di;
          valor_final = np_round2r (f64r (total * f64r (1 - f64r (of_int desconto / 100))));
          (si, h7) = choice_p np h6 [85 / 100, 1 / 10, 5 / 100];
          status = [''Concluida'', ''Pendente'', ''Cancelada''] ! si;
          (mi, h8) = choice_p np h7 [4 / 10, 2 / 10, 3 / 10, 1 / 10];
          metodo_pagamento = [''Cartao Credito'', ''Cartao Debito'', ''PIX'', ''Boleto''] ! mi;
          (v, h9) = randint np h8 1 21;
          (cl, h10) = randint np h9 1000 9999
      in (\<lparr>ID = ''V'' @ fmt_05d (i + 1),
           Data = d,
           Categoria = categoria,
           Produto = ''Produto '' @ categoria @ '' '' @ str_nat (i + 1),
           Regiao = regiao,
           Cidade = cidade,
           Valor_Unitario = valor,
           Quantidade = quantidade,
           Valor_Total = total,
           Desconto = desconto,
           Valor_Final = valor_final,
           Status = status,
           Metodo_Pagamento = metodo_pagamento,
           Vendedor = ''Vendedor '' @ str_int v,
           Cliente_ID = ''C'' @ str_int cl,
           Mes = to_period_M d,
           Ano = ano_de d,
           Trimestre = quarter d,
           Dia_Semana = day_name d,
           Mes_Nome = month_name d\<rparr>, h10))"

text \<open>The loop \<^verbatim>\<open>for i in range(n_registros)\<close>, over the indices still to do.\<close>

fun linhas :: "'h np_random \<Rightarrow> 'h \<Rightarrow> timestamp list \<Rightarrow> nat list \<Rightarrow> dataframe" where
  "linhas np h datas [] = []"
| "linhas np h datas (i # idx) =
     (let (row, h') = linha np h i (datas ! i) in row # linhas np h' datas idx)"

text \<open>
  The range of a Python \<^verbatim>\<open>datetime\<close>, from 0001-01-01 00:00:00 to
  9999-12-31 23:59:59.999999, and the range of a pandas Timestamp, a 64-bit count of
  nanoseconds.
\<close>

definition datetime_min :: timestamp where
  "datetime_min = - 719162 * dia"

definition datetime_max :: timestamp where
  "datetime_max = 2932897 * dia - 1000"

definition ts_min :: timestamp where
  "ts_min = - (2 ^ 63) + 1"

definition ts_max :: timestamp where
  "ts_max = 2 ^ 63 - 1"

text \<open>
  \<^verbatim>\<open>gerar_dados_vendas\<close>, with the clock reading \<^verbatim>\<open>datetime.now()\<close> as the
  argument \<open>now\<close> and the states of the two generators at the call as \<open>g0\<close> and \<open>h0\<close>.
  The failures of the source, in the order in which it reaches them:
  \<^item> \<^verbatim>\<open>np.random.seed\<close> raises ValueError unless \<open>0 \<le> seed < 2 ^ 32\<close>;
  \<^item> the subtraction and the additions of \<^verbatim>\<open>timedelta\<close> raise OverflowError when
    a date leaves the range of \<^verbatim>\<open>datetime\<close>;
  \<^item> \<^verbatim>\<open>random.sample\<close> raises ValueError on a negative count;
  \<^item> \<^verbatim>\<open>datas[i]\<close> raises IndexError past the end of the list;
  \<^item> with no record the DataFrame has no column, and \<^verbatim>\<open>df['Data']\<close> raises
    KeyError;
  \<^item> a column with a date outside the range of a Timestamp is stored as a column
    of objects, not of datetimes, and \<^verbatim>\<open>.dt\<close> raises AttributeError.
\<close>

definition gerar_dados_vendas ::
  "'g py_random \<Rightarrow> 'h np_random \<Rightarrow> 'g \<Rightarrow> 'h \<Rightarrow> timestamp \<Rightarrow> int \<Rightarrow> int
     \<Rightarrow> error + dataframe" where
  "gerar_dados_vendas rnd np g0 h0 now n_registros seed =
     (if seed < 0 \<or> 2 ^ 32 \<le> seed then Inl ValueError
      else
        (let h = np_seed np h0 seed;
             g = seed_random rnd g0 seed;
             data_inicio = now - 365 * dia;
             datas = map (\<lambda>x. data_inicio + int x * dia) [0..<nat n_registros]
         in if data_inicio < datetime_min then Inl OverflowError
            else if list_ex (\<lambda>d. datetime_max < d) datas then Inl OverflowError
            else if n_registros < 0 then Inl ValueError
            else
              (let datas' = sort (sample rnd g datas (nat n_registros))
               in if length datas' < nat n_registros then Inl IndexError
                  else if n_registros = 0 then Inl KeyError
                  else if list_ex (\<lambda>d. d < ts_min \<or> ts_max < d) datas' then Inl AttributeError
                  else Inr (linhas np h datas' [0..<nat n_registros]))))"

text \<open>
  The dates that the generator builds from the clock reading \<open>now\<close> for \<open>n\<close> records,
  the first and the last, are in the range of a Timestamp.
\<close>

definition datas_ok :: "timestamp \<Rightarrow> int \<Rightarrow> bool" where
  "datas_ok now n = (ts_min \<le> now - 365 * dia \<and> now - 365 * dia + (n - 1) * dia \<le> ts_max)"

subsection \<open>Example inputs\<close>

text \<open>
  A pair of generators that meet the promises above, to run the model on: a rotation
  for \<^verbatim>\<open>random.sample\<close>, a counter for the numpy draws.
\<close>

definition rnd_exemplo :: "nat py_random" where
  "rnd_exemplo =
     \<lparr>seed_random = (\<lambda>g s. nat \<bar>s\<bar>), sample = (\<lambda>g xs k. take k (rotate g xs))\<rparr>"

definition np_exemplo :: "nat np_random" where
  "np_exemplo =
     \<lparr>np_seed = (\<lambda>h s. nat s),
      choice = (\<lambda>h k. (h mod k, h + 1)),
      choice_p = (\<lambda>h ps. (h mod length ps, h + 1)),
      uniform = (\<lambda>h lo hi. (lo + (hi - lo) * of_nat (h mod 10) / 10, h + 1)),
      randint = (\<lambda>h lo hi. (lo + int h mod (hi - lo), h + 1))\<rparr>"

text \<open>Midnight of 2024-01-01, as a clock reading.\<close>

definition agora_exemplo :: timestamp where
  "agora_exemplo = meia_noite 19723"

text \<open>A float64 sum that adds the values one by one, from left to right.\<close>

definition soma_seq :: "rat list \<Rightarrow> fnum" where
  "soma_seq xs = foldl f_add (Fin 0) (map Fin xs)"

text \<open>A row with the given date, category, net total and status.\<close>

definition venda_exemplo :: "timestamp \<Rightarrow> string \<Rightarrow> rat \<Rightarrow> string \<Rightarrow> venda" where
  "venda_exemplo d cat v st =
     \<lparr>ID = ''V00001'', Data = d, Categoria = cat, Produto = ''Produto'',
      Regiao = ''Sul'', Cidade = ''Curitiba'', Valor_Unitario = v, Quantidade = 1,
      Valor_Total = v, Desconto = 0, Valor_Final = v, Status = st,
      Metodo_Pagamento = ''PIX'', Vendedor = ''Vendedor 1'', Cliente_ID = ''C1000'',
      Mes = to_period_M d, Ano = ano_de d, Trimestre = quarter d,
      Dia_Semana = day_name d, Mes_Nome = month_name d\<rparr>"

definition df_exemplo :: dataframe where
  "df_exemplo =
     [venda_exemplo (meia_noite 10 + 86399 * segundo) ''Livros'' 10 ''Concluida'',
      venda_exemplo (meia_noite 11) ''Roupas'' 20 ''Cancelada'',
      venda_exemplo (meia_noite 40) ''Livros'' 30 ''Pendente'']"

text \<open>
  Completed sales of 1000 in January 1970, 1200 in February and 1100 in March, and a
  cancelled sale in February.
\<close>

definition df_tres_meses :: dataframe where
  "df_tres_meses =
     [venda_exemplo (meia_noite 0) ''Livros'' 400 ''Concluida'',
      venda_exemplo (meia_noite 5) ''Roupas'' 600 ''Concluida'',
      venda_exemplo (meia_noite 31) ''Livros'' 1200 ''Concluida'',
      venda_exemplo (meia_noite 40) ''Livros'' 70 ''Cancelada'',
      venda_exemplo (meia_noite 59) ''Roupas'' 1100 ''Concluida'']"

text \<open>Two months whose growth, 5.001 per cent, rounds to 5.\<close>

definition df_limiar :: dataframe where
  "df_limiar =
     [venda_exemplo (meia_noite 0) ''Livros'' 100000 ''Concluida'',
      venda_exemplo (meia_noite 31) ''Livros'' 105001 ''Concluida'']"

text \<open>Two months, the earlier with a total of exactly 0.\<close>

definition df_mes_zero :: dataframe where
  "df_mes_zero =
     [venda_exemplo (meia_noite 0) ''Livros'' 0 ''Concluida'',
      venda_exemplo (meia_noite 31) ''Livros'' 100 ''Concluida'']"

text \<open>One completed sale with a net total of 10.004.\<close>

text \<open>Two months with totals of 20000 and 20007.\<close>

definition df_quase_empate :: dataframe where
  "df_quase_empate =
     [venda_exemplo (meia_noite 0) ''Livros'' 20000 ''Concluida'',
      venda_exemplo (meia_noite 31) ''Livros'' 20007 ''Concluida'']"

text \<open>Two months with totals of 1.40 and 1.33, as float64.\<close>

definition df_quase_menos_cinco :: dataframe where
  "df_quase_menos_cinco =
     [venda_exemplo (meia_noite 0) ''Livros'' (f64r (14 / 10)) ''Concluida'',
      venda_exemplo (meia_noite 31) ''Livros'' (f64r (133 / 100)) ''Concluida'']"



section \<open>Properties of the filters\<close>

lemma subseq_filtrar_coluna: "subseq (filtrar_coluna col s d) d"
  by (cases s) simp_all

lemma df_filtrar_por_periodo:
  "df (filtrar_por_periodo a b p) =
     filter (\<lambda>r. (case b of None \<Rightarrow> True | Some fim \<Rightarrow> Data r \<le> fim + dia - ms))
       (filter (\<lambda>r. (case a of None \<Rightarrow> True | Some ini \<Rightarrow> ini \<le> Data r)) (df p))"
  by (simp add: filtrar_por_periodo_def Let_def split: option.splits)

lemma df_original_filtrar_por_periodo:
  "df_original (filtrar_por_periodo a b p) = df_original p"
  by (simp add: filtrar_por_periodo_def Let_def split: option.splits)

lemma df_original_aplicar: "df_original (aplicar p x) = df_original p"
  by (cases x)
    (simp_all add: limpar_dados_def df_original_filtrar_por_periodo filtrar_por_status_def
      filtrar_por_categoria_def filtrar_por_regiao_def reset_filtros_def)

lemma df_original_executar: "df_original (executar p xs) = df_original p"
  unfolding executar_def
  by (induction xs arbitrary: p) (simp_all add: df_original_aplicar)

lemma filtrar_coluna_todos:
  "set (map col d) \<subseteq> set todos \<Longrightarrow> filtrar_coluna col (Lista todos) d = d"
  by (auto simp: filter_id_conv)

text \<open>
  C10. Each of the four filters (date, status, category, region), whatever its
  arguments, leaves a view whose rows are a subsequence of the rows of the view it was
  applied to: rows are only removed, never added, repeated, reordered or changed.
\<close>

theorem filtros_subseq:
  "subseq (df (filtrar_por_periodo a b p)) (df p)
   \<and> subseq (df (filtrar_por_status s p)) (df p)
   \<and> subseq (df (filtrar_por_categoria s p)) (df p)
   \<and> subseq (df (filtrar_por_regiao s p)) (df p)"
proof -
  have "subseq (df (filtrar_por_periodo a b p)) (df p)"
    unfolding df_filtrar_por_periodo
    by (rule subseq_order.trans [OF subseq_filter_left subseq_filter_left])
  moreover have "subseq (df (filtrar_por_status s p)) (df p)"
    by (simp add: filtrar_por_status_def subseq_filtrar_coluna)
  moreover have "subseq (df (filtrar_por_categoria s p)) (df p)"
    by (simp add: filtrar_por_categoria_def subseq_filtrar_coluna)
  moreover have "subseq (df (filtrar_por_regiao s p)) (df p)"
    by (simp add: filtrar_por_regiao_def subseq_filtrar_coluna)
  ultimately show ?thesis by blast
qed

text \<open>
  C9. Whatever sequence of operations (cleaning, the four filters, reset) is run on a
  processor built from a collection \<open>d\<close>, the original collection the processor holds
  is still \<open>d\<close>, and a reset makes the current view equal to \<open>d\<close> again.
\<close>

theorem original_preservado:
  "df_original (executar (init d) xs) = d
   \<and> df (reset_filtros (executar (init d) xs)) = d"
  by (simp add: df_original_executar reset_filtros_def init_def)

text \<open>
  C7. The status filter, the category filter and the region filter leave the processor
  unchanged when the selection is omitted or is the empty list; and that is the result
  of filtering by any list that holds every value of the column in the view.
\<close>

theorem selecao_vazia_sem_efeito:
  "filtrar_por_status Omitida p = p \<and> filtrar_por_status (Lista []) p = p
   \<and> filtrar_por_categoria Omitida p = p \<and> filtrar_por_categoria (Lista []) p = p
   \<and> filtrar_por_regiao Omitida p = p \<and> filtrar_por_regiao (Lista []) p = p
   \<and> (set (map Status (df p)) \<subseteq> set todos \<longrightarrow>
        filtrar_por_status (Lista todos) p = filtrar_por_status (Lista []) p)
   \<and> (set (map Categoria (df p)) \<subseteq> set todos \<longrightarrow>
        filtrar_por_categoria (Lista todos) p = filtrar_por_categoria (Lista []) p)
   \<and> (set (map Regiao (df p)) \<subseteq> set todos \<longrightarrow>
        filtrar_por_regiao (Lista todos) p = filtrar_por_regiao (Lista []) p)"
  by (simp add: filtrar_por_status_def filtrar_por_categoria_def filtrar_por_regiao_def
      filtrar_coluna_todos del: filtrar_coluna.simps)

theorem selecao_vazia_sem_efeito_witness:
  "set (map Status (df (init df_exemplo))) \<subseteq> set [''Concluida'', ''Pendente'', ''Cancelada'']
   \<and> filtrar_por_status (Lista [''Concluida'', ''Pendente'', ''Cancelada'']) (init df_exemplo)
       = filtrar_por_status (Lista []) (init df_exemplo)
   \<and> set (map Categoria (df (init df_exemplo))) \<subseteq> set [''Livros'', ''Roupas'']
   \<and> filtrar_por_categoria (Lista [''Livros'', ''Roupas'']) (init df_exemplo)
       = filtrar_por_categoria (Lista []) (init df_exemplo)
   \<and> set (map Regiao (df (init df_exemplo))) \<subseteq> set [''Sul'']
   \<and> filtrar_por_regiao (Lista [''Sul'']) (init df_exemplo)
       = filtrar_por_regiao (Lista []) (init df_exemplo)
   \<and> filtrar_por_status (Lista []) (init df_exemplo) = init df_exemplo"
  using selecao_vazia_sem_efeito [of "init df_exemplo" "[''Concluida'', ''Pendente'', ''Cancelada'']"]
    selecao_vazia_sem_efeito [of "init df_exemplo" "[''Livros'', ''Roupas'']"]
    selecao_vazia_sem_efeito [of "init df_exemplo" "[''Sul'']"]
  by (simp add: init_def df_exemplo_def venda_exemplo_def)

text \<open>
  C6. With an end date given, the date filter keeps exactly the rows whose timestamp is
  at most the end date plus one day minus one millisecond; with a start date given,
  exactly the rows whose timestamp is at least the start; with both, exactly the rows
  between the two. For an end date \<open>d\<close>, a row stamped 23:59:59 on day \<open>d\<close> is kept and
  a row stamped 00:00:00 on day \<open>d + 1\<close> is removed.
\<close>

theorem filtrar_por_periodo_limites:
  "df (filtrar_por_periodo None (Some fim) p) = filter (\<lambda>r. Data r \<le> fim + dia - ms) (df p)
   \<and> df (filtrar_por_periodo (Some ini) None p) = filter (\<lambda>r. ini \<le> Data r) (df p)
   \<and> df (filtrar_por_periodo (Some ini) (Some fim) p) =
       filter (\<lambda>r. ini \<le> Data r \<and> Data r \<le> fim + dia - ms) (df p)
   \<and> (r \<in> set (df p) \<and> Data r = meia_noite d + 86399 * segundo \<longrightarrow>
        r \<in> set (df (filtrar_por_periodo None (Some (meia_noite d)) p)))
   \<and> (Data r = meia_noite (d + 1) \<longrightarrow>
        r \<notin> set (df (filtrar_por_periodo None (Some (meia_noite d)) p)))"
  by (auto simp: df_filtrar_por_periodo meia_noite_def dia_def ms_def segundo_def algebra_simps)

theorem filtrar_por_periodo_limites_witness:
  "hd df_exemplo \<in> set (df (init df_exemplo))
   \<and> Data (hd df_exemplo) = meia_noite 10 + 86399 * segundo
   \<and> hd df_exemplo \<in> set (df (filtrar_por_periodo None (Some (meia_noite 10)) (init df_exemplo)))
   \<and> Data (df_exemplo ! 1) = meia_noite (10 + 1)
   \<and> df_exemplo ! 1 \<notin> set (df (filtrar_por_periodo None (Some (meia_noite 10)) (init df_exemplo)))"
proof -
  have a: "hd df_exemplo \<in> set (df (init df_exemplo))"
    by (simp add: init_def df_exemplo_def)
  have b: "Data (hd df_exemplo) = meia_noite 10 + 86399 * segundo"
    by (simp add: df_exemplo_def venda_exemplo_def)
  have c: "Data (df_exemplo ! 1) = meia_noite (10 + 1)"
    by (simp add: df_exemplo_def venda_exemplo_def)
  show ?thesis
    using a b c
      filtrar_por_periodo_limites
        [where p = "init df_exemplo" and r = "hd df_exemplo" and d = 10 and fim = 0 and ini = 0]
      filtrar_por_periodo_limites
        [where p = "init df_exemplo" and r = "df_exemplo ! 1" and d = 10 and fim = 0 and ini = 0]
    by blast
qed

section \<open>Properties of the metrics\<close>

text \<open>
  C2. On a view with one cancelled row, one pending row and no completed row,
  \<^verbatim>\<open>calcular_metricas_vendas\<close> reports 0 cancelled and 0 pending sales, although the
  view holds one of each: the early return for a view without completed rows does not
  count them.
\<close>

theorem metricas_sem_concluidas:
  "vendas_canceladas (calcular_metricas_vendas
      (init [venda_exemplo 0 ''Livros'' 10 ''Cancelada'', venda_exemplo 0 ''Livros'' 20 ''Pendente''])) = 0
   \<and> vendas_pendentes (calcular_metricas_vendas
      (init [venda_exemplo 0 ''Livros'' 10 ''Cancelada'', venda_exemplo 0 ''Livros'' 20 ''Pendente''])) = 0
   \<and> length (filter (\<lambda>r. Status r = ''Cancelada'')
      (df (init [venda_exemplo 0 ''Livros'' 10 ''Cancelada'', venda_exemplo 0 ''Livros'' 20 ''Pendente'']))) = 1
   \<and> length (filter (\<lambda>r. Status r = ''Pendente'')
      (df (init [venda_exemplo 0 ''Livros'' 10 ''Cancelada'', venda_exemplo 0 ''Livros'' 20 ''Pendente'']))) = 1"
  by (simp add: calcular_metricas_vendas_def concluidas_def init_def venda_exemplo_def)

section \<open>Properties of the trend\<close>

lemma df_mensal_Nil: "df_mensal soma [] = []"
  by (simp add: df_mensal_def groupby_def)

lemma tendencias_mensal_eq:
  "2 \<le> length (df_mensal soma (concluidas (df p))) \<Longrightarrow>
     tendencias soma p = tendencias_mensal (df_mensal soma (concluidas (df p)))"
  by (cases "concluidas (df p)") (simp_all add: tendencias_def df_mensal_Nil)

lemma f64_not_NaN: "f64 x \<noteq> NaN"
  by (simp add: f64_def Let_def)

lemma f_sub_Fin_not_NaN: "f_sub (Fin a) (Fin b) \<noteq> NaN"
  by (simp add: f_sub_def f64_not_NaN)

lemma f_div_not_NaN: "x \<noteq> NaN \<Longrightarrow> v \<noteq> 0 \<Longrightarrow> f_div x (Fin v) \<noteq> NaN"
  by (cases x) (simp_all add: f64_not_NaN)

lemma fmul_not_NaN: "x \<noteq> NaN \<Longrightarrow> fmul x 100 \<noteq> NaN"
  by (cases x) (simp_all add: f64_not_NaN)

lemma fle_iff: "g \<noteq> NaN \<Longrightarrow> fle g c = (\<not> fgt g c)"
  by (cases g) auto

lemma fgt_mono: "fgt g c \<Longrightarrow> c' \<le> c \<Longrightarrow> fgt g c'"
  by (cases g) auto

lemma f_sub_zero: "f_sub (Fin u) (Fin 0) = Fin u"
  by (simp add: f_sub_def)

text \<open>
  C8, amended. Let the monthly totals of the completed rows of a view be at least two,
  the last two of them finite, \<open>u\<close> the last and \<open>v \<noteq> 0\<close> the one before, and let \<open>g\<close>
  be the float64 value of \<open>(u - v) / v * 100\<close>, each operation rounded. Then
  \<^verbatim>\<open>tendencias\<close> reports \<open>g\<close> rounded to two decimal places by numpy, and labels
  the unrounded \<open>g\<close>: strong growth iff \<open>g > 5\<close>, moderate growth iff \<open>0 < g \<le> 5\<close>,
  stable iff \<open>-5 < g \<le> 0\<close>, decline iff \<open>g \<le> -5\<close>. It also reports the two totals.
\<close>

theorem tendencias_crescimento:
  assumes "m = df_mensal soma (concluidas (df p))" and "2 \<le> length m"
    and "last m = Fin u" and "last (butlast m) = Fin v" and "v \<noteq> 0"
    and "g = fmul (f_div (f_sub (Fin u) (Fin v)) (Fin v)) 100"
  shows "crescimento_mensal (tendencias soma p) = np_round2 g
    \<and> (tendencia (tendencias soma p) = ''Crescimento Forte'') = fgt g 5
    \<and> (tendencia (tendencias soma p) = ''Crescimento Moderado'') = (fgt g 0 \<and> fle g 5)
    \<and> (tendencia (tendencias soma p) = ''Estavel'') = (fgt g (- 5) \<and> fle g 0)
    \<and> (tendencia (tendencias soma p) = ''Declinio'') = fle g (- 5)
    \<and> ultimo_mes (tendencias soma p) = Fin u
    \<and> penultimo_mes (tendencias soma p) = Fin v"
proof -
  have t: "tendencias soma p = tendencias_mensal m"
    using assms(1,2) by (simp add: tendencias_mensal_eq)
  have n: "g \<noteq> NaN"
    unfolding assms(6)
    by (intro fmul_not_NaN f_div_not_NaN f_sub_Fin_not_NaN assms(5))
  have e: "tendencias soma p = Tendencia (np_round2 g) (classificar g) (Fin u) (Fin v)"
    using assms(2) by (simp add: t tendencias_mensal_def Let_def assms(3,4,6))
  have a: "fgt g 0" if "fgt g 5"
    using that by (rule fgt_mono) simp
  have b: "fgt g (- 5)" if "fgt g 0"
    using that by (rule fgt_mono) simp
  show ?thesis
    unfolding e using a b by (auto simp: classificar_def fle_iff [OF n])
qed

text \<open>
  The series 1000, 1200, 1100: the reported growth is the float64 nearest to -8.33,
  a decline.
\<close>

theorem tendencias_crescimento_witness:
  "df_mensal soma_seq (concluidas (df (init df_tres_meses))) = [Fin 1000, Fin 1200, Fin 1100]
   \<and> crescimento_mensal (tendencias soma_seq (init df_tres_meses)) = f64 (- 833 / 100)
   \<and> tendencia (tendencias soma_seq (init df_tres_meses)) = ''Declinio''"
proof -
  let ?g = "fmul (f_div (f_sub (Fin 1100) (Fin 1200)) (Fin 1200)) 100"
  have m: "df_mensal soma_seq (concluidas (df (init df_tres_meses)))
      = [Fin 1000, Fin 1200, Fin 1100]"
    by code_simp
  have h2: "2 \<le> length [Fin 1000, Fin 1200, Fin 1100]"
    by simp
  have hu: "last [Fin 1000, Fin 1200, Fin 1100] = Fin 1100"
    by simp
  have hv: "last (butlast [Fin 1000, Fin 1200, Fin 1100]) = Fin 1200"
    by simp
  have h0: "(1200::rat) \<noteq> 0"
    by simp
  have r: "np_round2 ?g = f64 (- 833 / 100)"
    by code_simp
  have d: "fle ?g (- 5)"
    by code_simp
  note t = tendencias_crescimento [OF m [symmetric] h2 hu hv h0 refl]
  have "crescimento_mensal (tendencias soma_seq (init df_tres_meses)) = f64 (- 833 / 100)"
    using t r by (simp only:)
  moreover have "tendencia (tendencias soma_seq (init df_tres_meses)) = ''Declinio''"
    using t d by (simp only:)
  ultimately show ?thesis
    using m by (simp only: simp_thms)
qed

text \<open>
  The reported growth is not the quotient itself, and the label does not follow from
  the reported growth: totals of 100000 and 105001 give a reported growth of 5 with the
  label of strong growth, the quotient being 5.001.
\<close>

theorem tendencias_limiar_counterexample:
  "crescimento_mensal (tendencias soma_seq (init df_limiar)) = Fin 5
   \<and> tendencia (tendencias soma_seq (init df_limiar)) = ''Crescimento Forte''
   \<and> ultimo_mes (tendencias soma_seq (init df_limiar)) = Fin 105001
   \<and> penultimo_mes (tendencias soma_seq (init df_limiar)) = Fin 100000
   \<and> (105001 - 100000) / 100000 * 100 \<noteq> (5 :: rat)"
  by code_simp

text \<open>
  C3, amended. When the view has at least two completed months, the previous month's
  total is exactly 0 and the last month's total is a finite \<open>u\<close>, \<^verbatim>\<open>tendencias\<close>
  divides by the zero without a guard: the reported growth is plus infinity, labelled
  strong growth, when \<open>u\<close> is positive; minus infinity, labelled decline, when it is
  negative; NaN, labelled decline, when it is 0.
\<close>

theorem tendencias_divisao_por_zero:
  assumes "m = df_mensal soma (concluidas (df p))" and "2 \<le> length m"
    and "last (butlast m) = Fin 0" and "last m = Fin u"
  shows "tendencias soma p =
     Tendencia (if 0 < u then PInf else if u < 0 then NInf else NaN)
       (if 0 < u then ''Crescimento Forte'' else ''Declinio'') (Fin u) (Fin 0)"
proof -
  have t: "tendencias soma p = tendencias_mensal m"
    using assms(1,2) by (simp add: tendencias_mensal_eq)
  show ?thesis
    using assms(2)
    by (simp add: t tendencias_mensal_def Let_def assms(3,4) f_sub_zero classificar_def
        np_round2_def)
qed

theorem tendencias_divisao_por_zero_witness:
  "df_mensal soma_seq (concluidas (df (init df_mes_zero))) = [Fin 0, Fin 100]
   \<and> tendencias soma_seq (init df_mes_zero)
       = Tendencia PInf ''Crescimento Forte'' (Fin 100) (Fin 0)"
proof -
  have m: "df_mensal soma_seq (concluidas (df (init df_mes_zero))) = [Fin 0, Fin 100]"
    by code_simp
  have h2: "2 \<le> length [Fin 0, Fin 100]"
    by simp
  have h3: "last (butlast [Fin 0, Fin 100]) = Fin 0"
    by simp
  have h4: "last [Fin 0, Fin 100] = Fin 100"
    by simp
  note t = tendencias_divisao_por_zero [OF m [symmetric] h2 h3 h4]
  show ?thesis
    using t m by simp
qed

text \<open>A previous month of 0 followed by a month of 100: the growth is infinite.\<close>

theorem tendencias_infinito_counterexample:
  "crescimento_mensal (tendencias soma_seq (init df_mes_zero)) = PInf
   \<and> tendencia (tendencias soma_seq (init df_mes_zero)) = ''Crescimento Forte''
   \<and> penultimo_mes (tendencias soma_seq (init df_mes_zero)) = Fin 0"
  by code_simp

text \<open>
  Two series on which the rounding of the float64 operations shows. Totals of 20000
  and 20007: the growth is a little under 0.035 and is reported as 0.03. Totals of 1.40
  and 1.33: the growth is a little above -5, so the label is stable, and it is reported
  as -5.
\<close>

lemma tendencias_quase_empate:
  "tendencias soma_seq (init df_quase_empate)
     = Tendencia (f64 (3 / 100)) ''Crescimento Moderado'' (Fin 20007) (Fin 20000)"
  by code_simp

lemma tendencias_quase_menos_cinco:
  "crescimento_mensal (tendencias soma_seq (init df_quase_menos_cinco)) = Fin (- 5)
   \<and> tendencia (tendencias soma_seq (init df_quase_menos_cinco)) = ''Estavel''"
  by code_simp

section \<open>Properties of the generator\<close>

lemma Data_linha: "Data (fst (linha np h i d)) = d"
  by (simp add: linha_def Let_def split_beta)



lemma length_linhas: "length (linhas np h datas idx) = length idx"
  by (induction idx arbitrary: h) (simp_all add: split_beta)

lemma map_Data_linhas: "map Data (linhas np h datas idx) = map (\<lambda>i. datas ! i) idx"
  by (induction idx arbitrary: h) (simp_all add: split_beta Data_linha)


lemma sorted_datas: "sorted (map (\<lambda>x. a + int x * dia) [0..<n])"
  by (induction n) (auto simp: sorted_append dia_def)

lemma distinct_datas: "distinct (map (\<lambda>x. a + int x * dia) [0..<n])"
  by (auto simp: distinct_map inj_on_def dia_def)

lemma sort_sample:
  assumes "sample_ok rnd" and "sorted xs"
  shows "sort (sample rnd g xs (length xs)) = xs"
proof (rule properties_for_sort)
  show "mset xs = mset (sample rnd g xs (length xs))"
    using assms(1) by (simp add: sample_ok_def)
  show "sorted xs" by (rule assms(2))
qed

text \<open>The dates that pass \<open>datas_ok\<close> are in both ranges.\<close>

lemma datas_no_intervalo:
  assumes "datas_ok now n" and "d \<in> set (map (\<lambda>x. now - 365 * dia + int x * dia) [0..<nat n])"
  shows "ts_min \<le> d \<and> d \<le> ts_max \<and> d \<le> datetime_max"
proof -
  from assms(2) obtain x where x: "x < nat n" and d: "d = now - 365 * dia + int x * dia"
    by auto
  from x have "int x \<le> n - 1"
    by simp
  then have "int x * dia \<le> (n - 1) * dia"
    by (simp add: dia_def)
  moreover have "0 \<le> int x * dia"
    by (simp add: dia_def)
  ultimately show ?thesis
    using assms(1) unfolding d datas_ok_def
    by (simp add: ts_min_def ts_max_def datetime_max_def dia_def)
qed

lemma datas_ok_inicio: "datas_ok now n \<Longrightarrow> \<not> now - 365 * dia < datetime_min"
  by (simp add: datas_ok_def ts_min_def datetime_min_def dia_def)

lemma gerar_dados_vendas_Inr:
  assumes "sample_ok rnd" and "1 \<le> n" and "0 \<le> seed" and "seed < 2 ^ 32"
    and "datas_ok now n"
  shows "gerar_dados_vendas rnd np g0 h0 now n seed =
     Inr (linhas np (np_seed np h0 seed)
            (map (\<lambda>x. now - 365 * dia + int x * dia) [0..<nat n]) [0..<nat n])"
proof -
  let ?datas = "map (\<lambda>x. now - 365 * dia + int x * dia) [0..<nat n]"
  let ?g = "seed_random rnd g0 seed"
  have "sort (sample rnd ?g ?datas (length ?datas)) = ?datas"
    using assms(1) sorted_datas by (rule sort_sample)
  then have s: "sort (sample rnd ?g ?datas (nat n)) = ?datas"
    by simp
  have "length (sort (sample rnd ?g ?datas (nat n))) = nat n"
    by (simp only: s) simp
  then have l: "length (sample rnd ?g ?datas (nat n)) = nat n"
    by simp
  have o: "\<not> list_ex (\<lambda>d. datetime_max < d) ?datas"
    using datas_no_intervalo [OF assms(5)] by (fastforce simp: list_ex_iff)
  have a: "\<not> list_ex (\<lambda>d. d < ts_min \<or> ts_max < d) ?datas"
    using datas_no_intervalo [OF assms(5)] by (fastforce simp: list_ex_iff)
  show ?thesis
    using assms(2-4) datas_ok_inicio [OF assms(5)] s l o a
    by (simp add: gerar_dados_vendas_def Let_def)
qed


lemma map_Data_datas:
  "map Data (linhas np h (map (\<lambda>x. a + int x * dia) [0..<k]) [0..<k])
     = map (\<lambda>x. a + int x * dia) [0..<k]"
proof -
  let ?datas = "map (\<lambda>x. a + int x * dia) [0..<k]"
  have "map Data (linhas np h ?datas [0..<k]) = map (\<lambda>i. ?datas ! i) [0..<length ?datas]"
    by (simp only: map_Data_linhas length_map length_upt minus_nat.diff_0)
  then show ?thesis
    by (simp only: map_nth)
qed


lemma mset_rotate1: "mset (rotate1 xs) = mset xs"
  by (cases xs) simp_all

lemma mset_rotate: "mset (rotate k xs) = mset xs"
  by (induction k) (simp_all add: mset_rotate1)

lemma sample_ok_exemplo: "sample_ok rnd_exemplo"
  by (simp add: sample_ok_def rnd_exemplo_def mset_rotate)


lemma datas_ok_exemplo: "n \<le> 80000 \<Longrightarrow> - 80000 \<le> n \<Longrightarrow> datas_ok agora_exemplo n"
  by (simp add: datas_ok_def agora_exemplo_def meia_noite_def ts_min_def ts_max_def dia_def)

lemma dia_de_datas: "dia_de (a + int x * dia) = a div dia + int x"
  by (simp add: dia_de_def dia_def)

lemma distinct_dias: "distinct (map (\<lambda>x. dia_de (a + int x * dia)) [0..<k])"
  by (simp add: dia_de_datas distinct_map inj_on_def)

text \<open>
  C1, amended. For every count \<open>n \<ge> 1\<close>, every seed that numpy accepts and every clock
  reading for which the dates are in the range of a Timestamp, with a sampler that
  returns the whole population in some order, \<^verbatim>\<open>gerar_dados_vendas\<close> returns a
  collection of exactly \<open>n\<close> rows, on \<open>n\<close> distinct days, in ascending order of date,
  none before the start of the 365-day window that ends at the clock reading; for
  \<open>n \<le> 366\<close> every date lies in that window. A count above 365 is not rejected.
\<close>

theorem gerar_dados_vendas_datas:
  assumes "sample_ok rnd" and "1 \<le> n" and "0 \<le> seed" and "seed < 2 ^ 32"
    and "datas_ok now n"
  shows "\<exists>rows. gerar_dados_vendas rnd np g0 h0 now n seed = Inr rows
    \<and> length rows = nat n
    \<and> distinct (map (\<lambda>r. dia_de (Data r)) rows)
    \<and> distinct (map Data rows)
    \<and> sorted (map Data rows)
    \<and> list_all (\<lambda>r. now - 365 * dia \<le> Data r) rows
    \<and> (n \<le> 366 \<longrightarrow> list_all (\<lambda>r. Data r \<le> now) rows)"
proof -
  let ?datas = "map (\<lambda>x. now - 365 * dia + int x * dia) [0..<nat n]"
  let ?rows = "linhas np (np_seed np h0 seed) ?datas [0..<nat n]"
  have r: "gerar_dados_vendas rnd np g0 h0 now n seed = Inr ?rows"
    using assms by (rule gerar_dados_vendas_Inr)
  have d: "map Data ?rows = ?datas"
    by (rule map_Data_datas)
  have l: "length ?rows = nat n"
    by (simp add: length_linhas)
  have dd: "distinct (map (\<lambda>r. dia_de (Data r)) ?rows)"
  proof -
    have "map (\<lambda>r. dia_de (Data r)) ?rows = map dia_de (map Data ?rows)"
      by (simp add: comp_def)
    also have "\<dots> = map (\<lambda>x. dia_de (now - 365 * dia + int x * dia)) [0..<nat n]"
      unfolding d by (simp add: comp_def)
    finally show ?thesis
      by (simp only: distinct_dias)
  qed
  have lo: "list_all (\<lambda>r. now - 365 * dia \<le> Data r) ?rows"
  proof -
    have "list_all (\<lambda>t. now - 365 * dia \<le> t) (map Data ?rows)"
      unfolding d by (simp add: list_all_iff dia_def)
    then show ?thesis by (simp add: list_all_iff)
  qed
  have hi: "list_all (\<lambda>r. Data r \<le> now) ?rows" if "n \<le> 366"
  proof -
    have "list_all (\<lambda>t. t \<le> now) (map Data ?rows)"
      unfolding d using that by (auto simp: list_all_iff dia_def)
    then show ?thesis by (simp add: list_all_iff)
  qed
  show ?thesis
    using r l d dd lo hi distinct_datas [of "now - 365 * dia" "nat n"]
      sorted_datas [of "now - 365 * dia" "nat n"]
    by simp
qed

theorem gerar_dados_vendas_datas_witness:
  "sample_ok rnd_exemplo \<and> (1::int) \<le> 3 \<and> (0::int) \<le> 7 \<and> (7::int) < 2 ^ 32
   \<and> datas_ok agora_exemplo 3 \<and> (3::int) \<le> 366
   \<and> (\<exists>rows. gerar_dados_vendas rnd_exemplo np_exemplo 0 0 agora_exemplo 3 7 = Inr rows
        \<and> length rows = 3
        \<and> distinct (map (\<lambda>r. dia_de (Data r)) rows)
        \<and> sorted (map Data rows)
        \<and> list_all (\<lambda>r. agora_exemplo - 365 * dia \<le> Data r) rows
        \<and> list_all (\<lambda>r. Data r \<le> agora_exemplo) rows)"
proof -
  have ok: "datas_ok agora_exemplo 3"
    by (rule datas_ok_exemplo) simp_all
  have "\<exists>rows. gerar_dados_vendas rnd_exemplo np_exemplo 0 0 agora_exemplo 3 7 = Inr rows
    \<and> length rows = nat 3
    \<and> distinct (map (\<lambda>r. dia_de (Data r)) rows)
    \<and> distinct (map Data rows)
    \<and> sorted (map Data rows)
    \<and> list_all (\<lambda>r. agora_exemplo - 365 * dia \<le> Data r) rows
    \<and> ((3::int) \<le> 366 \<longrightarrow> list_all (\<lambda>r. Data r \<le> agora_exemplo) rows)"
    by (rule gerar_dados_vendas_datas [OF sample_ok_exemplo _ _ _ ok]) simp_all
  then obtain rows
    where r: "gerar_dados_vendas rnd_exemplo np_exemplo 0 0 agora_exemplo 3 7 = Inr rows"
    and l: "length rows = nat 3"
    and dd: "distinct (map (\<lambda>r. dia_de (Data r)) rows)"
    and s: "sorted (map Data rows)"
    and lo: "list_all (\<lambda>r. agora_exemplo - 365 * dia \<le> Data r) rows"
    and w: "(3::int) \<le> 366 \<longrightarrow> list_all (\<lambda>r. Data r \<le> agora_exemplo) rows"
    by blast
  have hi: "list_all (\<lambda>r. Data r \<le> agora_exemplo) rows"
    using w by simp
  have l3: "length rows = 3"
    using l by simp
  have "gerar_dados_vendas rnd_exemplo np_exemplo 0 0 agora_exemplo 3 7 = Inr rows
        \<and> length rows = 3
        \<and> distinct (map (\<lambda>r. dia_de (Data r)) rows)
        \<and> sorted (map Data rows)
        \<and> list_all (\<lambda>r. agora_exemplo - 365 * dia \<le> Data r) rows
        \<and> list_all (\<lambda>r. Data r \<le> agora_exemplo) rows"
    by (intro conjI r l3 dd s lo hi)
  then have "\<exists>rows. gerar_dados_vendas rnd_exemplo np_exemplo 0 0 agora_exemplo 3 7 = Inr rows
        \<and> length rows = 3
        \<and> distinct (map (\<lambda>r. dia_de (Data r)) rows)
        \<and> sorted (map Data rows)
        \<and> list_all (\<lambda>r. agora_exemplo - 365 * dia \<le> Data r) rows
        \<and> list_all (\<lambda>r. Data r \<le> agora_exemplo) rows" ..
  with sample_ok_exemplo ok show ?thesis
    by simp
qed

text \<open>Counts of 366 and of 1000 do not fail: they return 366 and 1000 rows.\<close>

theorem gerar_dados_vendas_366_counterexample:
  "\<not> isl (gerar_dados_vendas rnd_exemplo np_exemplo 0 0 agora_exemplo 366 42)
   \<and> length (projr (gerar_dados_vendas rnd_exemplo np_exemplo 0 0 agora_exemplo 366 42)) = 366
   \<and> \<not> isl (gerar_dados_vendas rnd_exemplo np_exemplo 0 0 agora_exemplo 1000 42)
   \<and> length (projr (gerar_dados_vendas rnd_exemplo np_exemplo 0 0 agora_exemplo 1000 42)) = 1000"
proof -
  have a: "gerar_dados_vendas rnd_exemplo np_exemplo 0 0 agora_exemplo 366 42 =
     Inr (linhas np_exemplo (np_seed np_exemplo 0 42)
            (map (\<lambda>x. agora_exemplo - 365 * dia + int x * dia) [0..<nat 366]) [0..<nat 366])"
    by (rule gerar_dados_vendas_Inr [OF sample_ok_exemplo _ _ _ datas_ok_exemplo]) simp_all
  have b: "gerar_dados_vendas rnd_exemplo np_exemplo 0 0 agora_exemplo 1000 42 =
     Inr (linhas np_exemplo (np_seed np_exemplo 0 42)
            (map (\<lambda>x. agora_exemplo - 365 * dia + int x * dia) [0..<nat 1000]) [0..<nat 1000])"
    by (rule gerar_dados_vendas_Inr [OF sample_ok_exemplo _ _ _ datas_ok_exemplo]) simp_all
  show ?thesis
    by (simp only: a b sum.disc sum.sel length_linhas length_upt) simp
qed




end
